theory Spec2Isabelle
  imports Main "HOL-Library.Word" "HOL-Library.Signed_Division"
begin

section \<open>Data model of vrr.go\<close>

text \<open>
  Go's \<open>int\<close> is modelled as a 64-bit word (a 64-bit platform): \<open>+\<close> and \<open>-\<close> wrap,
  the comparisons of the source are the signed ones (\<open><s\<close>, \<open>\<le>s\<close>). The quorum counters
  of the broadcasts are \<open>int32\<close>, so they are 32-bit words, widened with \<open>scast\<close> as
  \<open>int(...)\<close> does. A value of type \<open>interface{}\<close> is an optional payload, \<open>None\<close> being
  \<open>nil\<close>. A \<open>time.Time\<close> is an integer instant and every function that calls
  \<open>time.Now()\<close> takes the instant as its argument \<open>now\<close>.
\<close>

type_synonym go_int = "64 word"
type_synonym go_int32 = "32 word"
type_synonym 'v iface = "'v option"
type_synonym time = int

datatype ReplicaStatus =
  Normal | Recovery | ViewChange | Transitioning | Dead | DoViewChange | StartView

record 'v clientRequest =
  clientID :: go_int
  reqNum :: go_int
  reqOp :: "'v iface"

record 'v clientTableEntry =
  reqNum :: go_int
  reqOp :: "'v iface"
  resp :: "'v iface"

record 'v opLogEntry =
  opID :: go_int
  operation :: "'v iface"

record 'v CommitEntry =
  ViewNum :: go_int
  OpNum :: go_int
  CommitNum :: go_int
  ClientReq :: "'v clientRequest"
  Resp :: "'v iface"

record 'v PrepareArgs =
  ViewNum :: go_int
  OpNum :: go_int
  CommitNum :: go_int
  ClientMessage :: "'v clientRequest"

record PrepareOKReply =
  IsReplied :: bool
  ViewNum :: go_int
  OpNum :: go_int
  ReplicaID :: go_int
  Status :: ReplicaStatus

record CommitArgs =
  ViewNum :: go_int
  CommitNum :: go_int

record CommitReply =
  IsReplied :: bool
  ReplicaID :: go_int

record 'v StartViewArgs =
  ViewNum :: go_int
  OpLog :: "'v opLogEntry list"
  OpNum :: go_int
  PrimaryID :: go_int

record StartViewReply =
  IsReplied :: bool
  ReplicaID :: go_int

record 'v DoViewChangeArgs =
  ViewNum :: go_int
  OldViewNum :: go_int
  CommitNum :: go_int
  OpNum :: go_int
  OpLog :: "'v opLogEntry list"

record DoViewChangeReply =
  IsReplied :: bool
  ReplicaID :: go_int

record StartViewChangeArgs =
  ViewNum :: go_int
  ReplicaID :: go_int

record StartViewChangeReply =
  IsReplied :: bool
  ReplicaID :: go_int

record HelloArgs =
  ID :: go_int

record HelloReply =
  ID :: go_int

text \<open>
  The replica. The mutex, the server handle and \<open>newCommitReadyChan\<close> carry no protocol
  state and are left out; \<open>commitChan\<close> is the sequence of entries sent on the channel so
  far, oldest first. Every handler below is the body that runs while \<open>r.mu\<close> is held.
\<close>

record 'v Replica =
  ID :: go_int
  commitChan :: "'v CommitEntry list"
  oldViewNum :: go_int
  viewNum :: go_int
  commitNum :: go_int
  opNum :: go_int
  opLog :: "'v opLogEntry list"
  primaryID :: go_int
  doViewChangeCount :: go_int
  tempViewNum :: go_int
  tempOpLog :: "'v opLogEntry list"
  tempOpNum :: go_int
  tempCommitNum :: go_int
  status :: ReplicaStatus
  configuration :: "go_int \<rightharpoonup> string"
  clientTable :: "go_int \<rightharpoonup> 'v clientTableEntry"
  viewChangeResetEvent :: time

text \<open>The local variables shared by the goroutines of one \<open>primaryBlastPrepare\<close> call.\<close>

record 'v prepareBlast =
  savedViewNum :: go_int
  savedOpNum :: go_int
  savedCommitNum :: go_int
  newRequest :: "'v clientRequest"
  prepareOKsReceived :: go_int32
  commitedAlready :: bool

text \<open>The local variables shared by the goroutines of one \<open>blastStartViewChange\<close> call.\<close>

record startViewChangeBlast =
  savedCurrentViewNum :: go_int
  repliesReceived :: go_int32
  sendStartViewChangeAlready :: bool

section \<open>Go primitives\<close>

definition len :: "'a list \<Rightarrow> go_int" where
  "len xs = of_nat (length xs)"

definition len_map :: "('k \<rightharpoonup> 'a) \<Rightarrow> go_int" where
  "len_map m = of_nat (card (dom m))"

text \<open>Go's integer division truncates towards zero.\<close>

definition go_div :: "go_int \<Rightarrow> go_int \<Rightarrow> go_int" where
  "go_div a b = word_of_int (sint a sdiv sint b)"

text \<open>The largest \<open>int\<close>, \<open>math.MaxInt64\<close>: adding 1 to it wraps to the smallest.\<close>

definition maxInt :: go_int where
  "maxInt = 9223372036854775807"

text \<open>Reading a missing key of a Go map gives the zero value of the entry type.\<close>

definition lookupClient :: "(go_int \<rightharpoonup> 'v clientTableEntry) \<Rightarrow> go_int \<Rightarrow> 'v clientTableEntry" where
  "lookupClient m c =
     (case m c of
        None \<Rightarrow> \<lparr>clientTableEntry.reqNum = 0, reqOp = None, resp = None\<rparr>
      | Some e \<Rightarrow> e)"

section \<open>Construction, Report, Stop\<close>

text \<open>
  \<open>NewReplica\<close> leaves every field it does not assign at its zero value. Its goroutine sets
  \<open>viewChangeResetEvent\<close> once the \<open>ready\<close> channel delivers and starts the timer.
\<close>

definition NewReplica :: "go_int \<Rightarrow> (go_int \<rightharpoonup> string) \<Rightarrow> 'v Replica" where
  "NewReplica ID' configuration' =
     \<lparr>ID = ID', commitChan = [], oldViewNum = - 1, viewNum = 0, commitNum = 0, opNum = 0,
      opLog = [], primaryID = 0, doViewChangeCount = 0, tempViewNum = 0, tempOpLog = [],
      tempOpNum = 0, tempCommitNum = 0, status = Normal, configuration = configuration',
      clientTable = Map.empty, viewChangeResetEvent = 0\<rparr>"

definition ready :: "time \<Rightarrow> 'v Replica \<Rightarrow> 'v Replica" where
  "ready now r = r\<lparr>viewChangeResetEvent := now\<rparr>"

definition Report :: "'v Replica \<Rightarrow> go_int \<times> go_int \<times> bool \<times> ReplicaStatus" where
  "Report r = (ID r, viewNum r, ID r = primaryID r, status r)"

definition Stop :: "'v Replica \<Rightarrow> 'v Replica" where
  "Stop r = r\<lparr>status := Dead\<rparr>"

section \<open>Submit and the Prepare broadcast\<close>

text \<open>
  \<open>Submit\<close> returns the answer and the replica as it is when the lock is released. On
  acceptance the source then calls \<open>primaryBlastPrepare\<close>, which takes the lock again only to
  read the snapshot below and starts one goroutine for each peer.
\<close>

definition Submit :: "'v clientRequest \<Rightarrow> 'v Replica \<Rightarrow> bool \<times> 'v Replica" where
  "Submit req r =
     (if ID r \<noteq> primaryID r then (False, r)
      else if status r \<noteq> Normal then (False, r)
      else if clientRequest.reqNum req
                \<le>s clientTableEntry.reqNum (lookupClient (clientTable r) (clientID req))
      then (False, r)
      else
        let r1 = r\<lparr>opLog := opLog r @ [\<lparr>opID = len (opLog r),
                                         operation = clientRequest.reqOp req\<rparr>]\<rparr>;
            r2 = r1\<lparr>opNum := opNum r1 + 1\<rparr>;
            ctEntry = \<lparr>clientTableEntry.reqNum = clientRequest.reqNum req,
                       reqOp = clientRequest.reqOp req, resp = None\<rparr>;
            r3 = r2\<lparr>clientTable := (clientTable r2)(clientID req \<mapsto> ctEntry)\<rparr>
        in (True, r3))"

definition primaryBlastPrepare :: "'v clientRequest \<Rightarrow> 'v Replica \<Rightarrow> 'v prepareBlast" where
  "primaryBlastPrepare newRequest' r =
     \<lparr>savedViewNum = viewNum r, savedOpNum = opNum r, savedCommitNum = commitNum r,
      newRequest = newRequest', prepareOKsReceived = 1, commitedAlready = False\<rparr>"

definition prepareArgsOf :: "'v prepareBlast \<Rightarrow> 'v PrepareArgs" where
  "prepareArgsOf b =
     \<lparr>PrepareArgs.ViewNum = savedViewNum b, OpNum = savedOpNum b,
      CommitNum = savedCommitNum b, ClientMessage = newRequest b\<rparr>"

text \<open>
  The body of one goroutine of \<open>primaryBlastPrepare\<close> after \<open>r.server.Call\<close> has returned:
  \<open>None\<close> is a call that returned an error, \<open>Some reply\<close> one that returned the peer's
  reply. The goroutines run this body one at a time, under the lock.
\<close>

definition primaryBlastPrepare_reply ::
  "PrepareOKReply option \<Rightarrow> 'v prepareBlast \<times> 'v Replica \<Rightarrow> 'v prepareBlast \<times> 'v Replica" where
  "primaryBlastPrepare_reply res s =
     (case res of
        None \<Rightarrow> s
      | Some reply \<Rightarrow>
          let b = fst s; r = snd s in
          if PrepareOKReply.IsReplied reply \<and> \<not> commitedAlready b then
            let b1 = b\<lparr>prepareOKsReceived := prepareOKsReceived b + 1\<rparr>;
                replies = (scast (prepareOKsReceived b1) :: go_int)
            in if len_map (configuration r) + 1 <s replies * 2 then
                 let r1 = r\<lparr>commitNum := commitNum r + 1\<rparr>;
                     b2 = b1\<lparr>commitedAlready := True\<rparr>
                 in if commitNum r1 \<noteq> savedCommitNum b2 then
                      (b2, r1\<lparr>commitChan := commitChan r1 @
                                 [\<lparr>CommitEntry.ViewNum = savedViewNum b2,
                                   OpNum = savedOpNum b2,
                                   CommitNum = savedCommitNum b2,
                                   ClientReq = newRequest b2,
                                   Resp = None\<rparr>]\<rparr>)
                    else (b2, r1)
               else (b1, r)
          else (b, r))"

text \<open>The replies of one broadcast, handled in the order in which they take the lock.\<close>

fun deliverPrepareReplies ::
  "PrepareOKReply option list \<Rightarrow> 'v prepareBlast \<times> 'v Replica \<Rightarrow> 'v prepareBlast \<times> 'v Replica" where
  "deliverPrepareReplies [] s = s"
| "deliverPrepareReplies (res # rest) s =
     deliverPrepareReplies rest (primaryBlastPrepare_reply res s)"

section \<open>The view-change transitions\<close>

definition nextPrimary :: "go_int \<Rightarrow> (go_int \<rightharpoonup> string) \<Rightarrow> go_int" where
  "nextPrimary primaryID' config =
     (let nextPrimaryID = primaryID' + 1
      in if nextPrimaryID = len_map config + 1 then 0 else nextPrimaryID)"

definition initiateStartView :: "time \<Rightarrow> 'v Replica \<Rightarrow> 'v Replica" where
  "initiateStartView now r =
     r\<lparr>status := ReplicaStatus.StartView, viewChangeResetEvent := now\<rparr>"

definition initiateDoViewChange :: "time \<Rightarrow> 'v Replica \<Rightarrow> 'v Replica" where
  "initiateDoViewChange now r =
     r\<lparr>status := ReplicaStatus.DoViewChange, viewChangeResetEvent := now\<rparr>"

definition initiateViewChange :: "time \<Rightarrow> 'v Replica \<Rightarrow> 'v Replica" where
  "initiateViewChange now r =
     r\<lparr>status := ViewChange, doViewChangeCount := 0, viewNum := viewNum r + 1,
       viewChangeResetEvent := now\<rparr>"

text \<open>
  \<open>sendDoViewChange\<close> returns the replica and the message it sends, with its destination,
  when it sends one.
\<close>

definition sendDoViewChange ::
  "'v Replica \<Rightarrow> 'v Replica \<times> (go_int \<times> 'v DoViewChangeArgs) option" where
  "sendDoViewChange r =
     (let nextPrimaryID = nextPrimary (primaryID r) (configuration r)
      in if nextPrimaryID = ID r
         then (r\<lparr>doViewChangeCount := doViewChangeCount r + 1\<rparr>, None)
         else (r, Some (nextPrimaryID,
                 \<lparr>DoViewChangeArgs.ViewNum = viewNum r, OldViewNum = oldViewNum r,
                  CommitNum = commitNum r, OpNum = opNum r, OpLog = opLog r\<rparr>)))"

definition blastStartViewChange :: "'v Replica \<Rightarrow> startViewChangeBlast" where
  "blastStartViewChange r =
     \<lparr>savedCurrentViewNum = viewNum r, repliesReceived = 1,
      sendStartViewChangeAlready = False\<rparr>"

definition blastStartViewChange_reply ::
  "time \<Rightarrow> StartViewChangeReply option \<Rightarrow> startViewChangeBlast \<times> 'v Replica
     \<Rightarrow> startViewChangeBlast \<times> 'v Replica" where
  "blastStartViewChange_reply now res s =
     (case res of
        None \<Rightarrow> s
      | Some reply \<Rightarrow>
          let b = fst s; r = snd s in
          if StartViewChangeReply.IsReplied reply \<and> \<not> sendStartViewChangeAlready b then
            let b1 = b\<lparr>repliesReceived := repliesReceived b + 1\<rparr>;
                replies = (scast (repliesReceived b1) :: go_int)
            in if len_map (configuration r) + 1 <s replies * 2
               then (b1\<lparr>sendStartViewChangeAlready := True\<rparr>, initiateDoViewChange now r)
               else (b1, r)
          else (b, r))"

definition primaryBlastStartView :: "'v Replica \<Rightarrow> 'v StartViewArgs" where
  "primaryBlastStartView r =
     \<lparr>StartViewArgs.ViewNum = viewNum r, OpLog = opLog r, OpNum = opNum r,
      PrimaryID = ID r\<rparr>"

text \<open>
  One tick of \<open>runViewChangeTimer\<close>, which was started with the timeout
  \<open>timeoutDuration\<close>. The heartbeat and the two broadcasts only send; what their replies
  do is in the reply functions.
\<close>

definition runViewChangeTimer_tick :: "time \<Rightarrow> int \<Rightarrow> 'v Replica \<Rightarrow> 'v Replica" where
  "runViewChangeTimer_tick now timeoutDuration r =
     (if status r = Normal \<and> primaryID r = ID r then r
      else if status r = ViewChange then r
      else if status r = ReplicaStatus.DoViewChange then fst (sendDoViewChange r)
      else if status r = ReplicaStatus.StartView then r
      else if timeoutDuration \<le> now - viewChangeResetEvent r then initiateViewChange now r
      else r)"

section \<open>The RPC handlers\<close>

text \<open>
  A handler takes the reply record it was given and returns it with the replica. All of them
  return a \<open>nil\<close> error. \<open>DoViewChange\<close> never writes to its reply, and at a Dead replica it
  returns without releasing the lock; the replica itself is unchanged there, as in the other
  handlers.
\<close>

definition Prepare ::
  "time \<Rightarrow> 'v PrepareArgs \<Rightarrow> PrepareOKReply \<Rightarrow> 'v Replica \<Rightarrow> PrepareOKReply \<times> 'v Replica" where
  "Prepare now args reply r =
     (if status r = Dead then (reply, r)
      else
        let r1 = (if viewNum r <s PrepareArgs.ViewNum args then r\<lparr>status := Recovery\<rparr> else r)
        in if viewNum r1 = PrepareArgs.ViewNum args then
             if opNum r1 \<noteq> PrepareArgs.OpNum args - 1 then (reply, r1\<lparr>status := Recovery\<rparr>)
             else
               let r2 = r1\<lparr>viewChangeResetEvent := now\<rparr>;
                   r3 = r2\<lparr>opNum := opNum r2 + 1\<rparr>;
                   r4 = r3\<lparr>opLog := opLog r3 @
                            [\<lparr>opID = len (opLog r3),
                              operation = clientRequest.reqOp (ClientMessage args)\<rparr>]\<rparr>;
                   ctEntry = \<lparr>clientTableEntry.reqNum = clientRequest.reqNum (ClientMessage args),
                              reqOp = clientRequest.reqOp (ClientMessage args), resp = None\<rparr>;
                   r5 = r4\<lparr>clientTable := (clientTable r4)(clientID (ClientMessage args) \<mapsto> ctEntry)\<rparr>
               in (reply\<lparr>PrepareOKReply.IsReplied := True, PrepareOKReply.ReplicaID := ID r5,
                         Status := status r5, PrepareOKReply.ViewNum := viewNum r5,
                         PrepareOKReply.OpNum := opNum r5\<rparr>, r5)
           else (reply, r1))"

definition Commit ::
  "time \<Rightarrow> CommitArgs \<Rightarrow> CommitReply \<Rightarrow> 'v Replica \<Rightarrow> CommitReply \<times> 'v Replica" where
  "Commit now args reply r =
     (if status r = Dead then (reply, r)
      else (reply, r\<lparr>viewChangeResetEvent := now\<rparr>))"

definition StartView ::
  "'v StartViewArgs \<Rightarrow> StartViewReply \<Rightarrow> 'v Replica \<Rightarrow> StartViewReply \<times> 'v Replica" where
  "StartView args reply r =
     (if status r = Dead then (reply, r)
      else
        (reply\<lparr>StartViewReply.IsReplied := True, StartViewReply.ReplicaID := ID r\<rparr>,
         r\<lparr>opLog := StartViewArgs.OpLog args, opNum := StartViewArgs.OpNum args,
           viewNum := StartViewArgs.ViewNum args, primaryID := PrimaryID args,
           status := Normal\<rparr>))"

definition DoViewChange ::
  "time \<Rightarrow> 'v DoViewChangeArgs \<Rightarrow> DoViewChangeReply \<Rightarrow> 'v Replica
     \<Rightarrow> DoViewChangeReply \<times> 'v Replica" where
  "DoViewChange now args reply r =
     (if status r = Dead then (reply, r)
      else
        let r3 =
          (if DoViewChangeArgs.ViewNum args = viewNum r then
             let r1 = r\<lparr>doViewChangeCount := doViewChangeCount r + 1\<rparr>;
                 r2 = (if oldViewNum r1 \<le>s OldViewNum args \<and> opNum r1 <s DoViewChangeArgs.OpNum args
                       then r1\<lparr>tempViewNum := DoViewChangeArgs.ViewNum args,
                               tempOpNum := len (DoViewChangeArgs.OpLog args),
                               tempOpLog := DoViewChangeArgs.OpLog args\<rparr>
                       else r1)
             in if commitNum r2 \<le>s DoViewChangeArgs.CommitNum args
                then r2\<lparr>tempCommitNum := DoViewChangeArgs.CommitNum args\<rparr>
                else r2
           else r)
        in if go_div (len_map (configuration r3)) 2 + 1 <s doViewChangeCount r3
              \<and> status r3 \<noteq> ReplicaStatus.StartView
           then
             (reply,
              initiateStartView now
                (r3\<lparr>viewNum := tempViewNum r3, opNum := tempOpNum r3, opLog := tempOpLog r3,
                    commitNum := tempCommitNum r3, status := Normal, primaryID := ID r3\<rparr>))
           else (reply, r3))"

definition StartViewChange ::
  "time \<Rightarrow> StartViewChangeArgs \<Rightarrow> StartViewChangeReply \<Rightarrow> 'v Replica
     \<Rightarrow> StartViewChangeReply \<times> 'v Replica" where
  "StartViewChange now args reply r =
     (if status r = Dead then (reply, r)
      else if viewNum r <s StartViewChangeArgs.ViewNum args then
        (reply\<lparr>StartViewChangeReply.IsReplied := True,
               StartViewChangeReply.ReplicaID := ID r\<rparr>,
         r\<lparr>status := ViewChange, oldViewNum := viewNum r,
           viewNum := StartViewChangeArgs.ViewNum args, viewChangeResetEvent := now\<rparr>)
      else if StartViewChangeArgs.ViewNum args = viewNum r then
        (reply\<lparr>StartViewChangeReply.IsReplied := True,
               StartViewChangeReply.ReplicaID := ID r\<rparr>, r)
      else (reply, r))"

definition Hello :: "HelloArgs \<Rightarrow> HelloReply \<Rightarrow> 'v Replica \<Rightarrow> HelloReply \<times> 'v Replica" where
  "Hello args reply r =
     (if status r = Dead then (reply, r)
      else (reply\<lparr>HelloReply.ID := ID r\<rparr>, r))"

section \<open>Predicates of the statements\<close>







text \<open>
  The invariant of the data model in the words of the specification: the commit number is at
  most the op number, and the op number is the length of the log.
\<close>

definition logInvariant :: "'v Replica \<Rightarrow> bool" where
  "logInvariant r = (commitNum r \<le>s opNum r \<and> opNum r = len (opLog r))"

section \<open>Scenario states\<close>

text \<open>
  Concrete replicas and messages of the scenarios of the specification: a configuration of
  three entries, the request of scenario S1, replica 0 (the first primary) and replica 1 as
  \<open>NewReplica\<close> makes them, and replica 1 after a \<open>StartViewChange\<close> for view 1 at instant 3.
\<close>

definition config3 :: "go_int \<rightharpoonup> string" where
  "config3 = [0 \<mapsto> ''a0'', 1 \<mapsto> ''a1'', 2 \<mapsto> ''a2'']"

definition request_x :: "string clientRequest" where
  "request_x = \<lparr>clientID = 1, reqNum = 1, reqOp = Some ''x''\<rparr>"

definition replica0 :: "string Replica" where
  "replica0 = NewReplica 0 config3"

definition replica1 :: "string Replica" where
  "replica1 = NewReplica 1 config3"

definition prepare_op1 :: "string PrepareArgs" where
  "prepare_op1 = \<lparr>PrepareArgs.ViewNum = 0, OpNum = 1, CommitNum = 0, ClientMessage = request_x\<rparr>"

definition prepare_op4 :: "string PrepareArgs" where
  "prepare_op4 = \<lparr>PrepareArgs.ViewNum = 0, OpNum = 4, CommitNum = 0, ClientMessage = request_x\<rparr>"

definition noPrepareOK :: PrepareOKReply where
  "noPrepareOK = \<lparr>PrepareOKReply.IsReplied = False, ViewNum = 0, OpNum = 0, ReplicaID = 0, Status = Normal\<rparr>"

definition replica1_view1 :: "string Replica" where
  "replica1_view1 =
     snd (StartViewChange 3 \<lparr>StartViewChangeArgs.ViewNum = 1, ReplicaID = 2\<rparr>
            \<lparr>StartViewChangeReply.IsReplied = False, ReplicaID = 0\<rparr> replica1)"

definition stale_commit :: CommitArgs where
  "stale_commit = \<lparr>CommitArgs.ViewNum = 0, CommitNum = 0\<rparr>"

definition noCommitReply :: CommitReply where
  "noCommitReply = \<lparr>CommitReply.IsReplied = False, ReplicaID = 0\<rparr>"

definition startview_v1 :: "string StartViewArgs" where
  "startview_v1 = \<lparr>StartViewArgs.ViewNum = 1,
      OpLog = [\<lparr>opID = 0, operation = Some ''x''\<rparr>], OpNum = 1, PrimaryID = 1\<rparr>"

text \<open>
  Scenario S1: replica 0 has accepted the request, broadcasts it, and replicas 1 and 2 answer
  the Prepare. The same with a configuration of five entries, where four peers answer.
\<close>

definition replica2 :: "string Replica" where
  "replica2 = NewReplica 2 config3"

definition primary_S1 :: "string Replica" where
  "primary_S1 = snd (Submit request_x replica0)"

definition blast_S1 :: "string prepareBlast" where
  "blast_S1 = primaryBlastPrepare request_x primary_S1"

definition prepareOK1_S1 :: PrepareOKReply where
  "prepareOK1_S1 = fst (Prepare 5 (prepareArgsOf blast_S1) noPrepareOK replica1)"

definition prepareOK2_S1 :: PrepareOKReply where
  "prepareOK2_S1 = fst (Prepare 6 (prepareArgsOf blast_S1) noPrepareOK replica2)"





definition log_a :: "string opLogEntry" where "log_a = \<lparr>opID = 0, operation = Some ''a''\<rparr>"
definition log_b :: "string opLogEntry" where "log_b = \<lparr>opID = 1, operation = Some ''b''\<rparr>"
definition log_c :: "string opLogEntry" where "log_c = \<lparr>opID = 2, operation = Some ''c''\<rparr>"
definition log_d :: "string opLogEntry" where "log_d = \<lparr>opID = 3, operation = Some ''d''\<rparr>"

definition noDoViewChangeReply :: DoViewChangeReply where
  "noDoViewChangeReply = \<lparr>DoViewChangeReply.IsReplied = False, ReplicaID = 0\<rparr>"

definition noStartViewChangeReply :: StartViewChangeReply where
  "noStartViewChangeReply = \<lparr>StartViewChangeReply.IsReplied = False, ReplicaID = 0\<rparr>"

definition startViewChange_v1 :: StartViewChangeArgs where
  "startViewChange_v1 = \<lparr>StartViewChangeArgs.ViewNum = 1, ReplicaID = 2\<rparr>"

text \<open>
  Scenario S4: replica 1 has prepared the operations a and b in view 0, has moved to view 1 on
  a StartViewChange, has reached DoViewChange and, being the next primary, has counted itself.
\<close>

definition replica1_S4 :: "string Replica" where
  "replica1_S4 =
     fst (sendDoViewChange (initiateDoViewChange 4
       (snd (StartViewChange 3 startViewChange_v1 noStartViewChangeReply
         (snd (Prepare 2
            \<lparr>PrepareArgs.ViewNum = 0, OpNum = 2, CommitNum = 0,
              ClientMessage = \<lparr>clientID = 1, reqNum = 2, reqOp = Some ''b''\<rparr>\<rparr> noPrepareOK
           (snd (Prepare 1
              \<lparr>PrepareArgs.ViewNum = 0, OpNum = 1, CommitNum = 0,
                ClientMessage = \<lparr>clientID = 1, reqNum = 1, reqOp = Some ''a''\<rparr>\<rparr> noPrepareOK
              replica1))))))))"

definition doViewChange_abcd :: "string DoViewChangeArgs" where
  "doViewChange_abcd =
     \<lparr>DoViewChangeArgs.ViewNum = 1, OldViewNum = 0, CommitNum = 3, OpNum = 4,
      OpLog = [log_a, log_b, log_c, log_d]\<rparr>"

definition doViewChange_abc :: "string DoViewChangeArgs" where
  "doViewChange_abc =
     \<lparr>DoViewChangeArgs.ViewNum = 1, OldViewNum = 0, CommitNum = 2, OpNum = 3,
      OpLog = [log_a, log_b, log_c]\<rparr>"

text \<open>
  Replica 0 after scenario S1, where it has committed the request, moved to view 1 by a
  StartViewChange; and a DoViewChange message of view 1 from a replica that holds the
  request uncommitted.
\<close>

definition committed_S1 :: "string Replica" where
  "committed_S1 =
     snd (deliverPrepareReplies [Some prepareOK1_S1, Some prepareOK2_S1] (blast_S1, primary_S1))"

definition committed_S1_view1 :: "string Replica" where
  "committed_S1_view1 =
     snd (StartViewChange 7 startViewChange_v1 noStartViewChangeReply committed_S1)"

definition doViewChange_x :: "string DoViewChangeArgs" where
  "doViewChange_x =
     \<lparr>DoViewChangeArgs.ViewNum = 1, OldViewNum = 0, CommitNum = 0, OpNum = 1,
      OpLog = [\<lparr>opID = 0, operation = Some ''x''\<rparr>]\<rparr>"

text \<open>
  StartView messages: one of view 0, which is stale at a replica in view 1, and one of view 1
  with an empty log.
\<close>

definition startview_stale :: "string StartViewArgs" where
  "startview_stale = \<lparr>StartViewArgs.ViewNum = 0, OpLog = [], OpNum = 0, PrimaryID = 0\<rparr>"

definition noStartViewReply :: StartViewReply where
  "noStartViewReply = \<lparr>StartViewReply.IsReplied = False, ReplicaID = 0\<rparr>"

definition startview_empty :: "string StartViewArgs" where
  "startview_empty = \<lparr>StartViewArgs.ViewNum = 1, OpLog = [], OpNum = 0, PrimaryID = 1\<rparr>"

text \<open>
  The ordinary view change of scenario S3 at replica 1 of scenario S4, when the other replicas
  hold the same log [a, b] as replica 1: replica 2 has committed nothing, the old primary has
  committed both operations.
\<close>

definition doViewChange_ab_backup :: "string DoViewChangeArgs" where
  "doViewChange_ab_backup =
     \<lparr>DoViewChangeArgs.ViewNum = 1, OldViewNum = 0, CommitNum = 0, OpNum = 2,
      OpLog = [log_a, log_b]\<rparr>"

definition doViewChange_ab_primary :: "string DoViewChangeArgs" where
  "doViewChange_ab_primary =
     \<lparr>DoViewChangeArgs.ViewNum = 1, OldViewNum = 0, CommitNum = 2, OpNum = 2,
      OpLog = [log_a, log_b]\<rparr>"













lemmas scen = replica0_def replica1_def NewReplica_def config3_def request_x_def
  prepare_op1_def prepare_op4_def noPrepareOK_def replica1_view1_def stale_commit_def
  noCommitReply_def startview_v1_def

section \<open>Signed comparison on 64-bit words\<close>

lemma sless_not_sym: "(a::go_int) <s b \<Longrightarrow> \<not> b <s a"
  by (simp add: word_sless_alt)

lemma sless_neq: "(a::go_int) <s b \<Longrightarrow> a \<noteq> b"
  by (auto simp add: word_sless_alt)

lemma not_sle_iff: "(\<not> (a::go_int) \<le>s b) = (b <s a)"
  by (simp add: word_sless_alt word_sle_eq not_le)

lemma pred_eq_iff: "((x::go_int) = y - 1) = (y = x + 1)"
  by auto

lemma sint_maxInt: "sint maxInt = 9223372036854775807"
  by (simp add: maxInt_def)

lemma sint_succ: "x \<noteq> maxInt \<Longrightarrow> sint ((x::go_int) + 1) = sint x + 1"
proof -
  assume a: "x \<noteq> maxInt"
  have ne: "sint x \<noteq> 9223372036854775807"
  proof
    assume "sint x = 9223372036854775807"
    then have "sint x = sint maxInt" by (simp only: sint_maxInt)
    then have "x = maxInt" by (rule signed_word_eqI)
    then show False using a by simp
  qed
  have lo: "- (2^63) \<le> sint x" using sint_ge [of x] by simp
  have hi: "sint x < 2^63" using sint_lt [of x] by simp
  have "sint (x + 1) = signed_take_bit 63 (sint x + 1)"
    by (simp add: sint_word_ariths)
  also have "\<dots> = sint x + 1"
    using ne lo hi by (intro signed_take_bit_int_eq_self) auto
  finally show ?thesis .
qed

lemma sle_succ: "x \<noteq> maxInt \<Longrightarrow> (x::go_int) \<le>s x + 1"
  by (simp add: word_sle_eq sint_succ)

lemma sint_eq_iff: "((a::go_int) = b) = (sint a = sint b)"
  by (auto intro: signed_word_eqI)

lemma sint_of_nat_small: "n < 2^63 \<Longrightarrow> sint (of_nat n :: go_int) = int n"
proof -
  assume a: "n < 2^63"
  have "sint (of_nat n :: go_int) = sint (word_of_int (int n) :: go_int)"
    by simp
  also have "\<dots> = signed_take_bit 63 (int n)"
    by (simp only: sint_sbintrunc') simp
  also have "\<dots> = int n"
    using a by (intro signed_take_bit_int_eq_self) auto
  finally show ?thesis .
qed

lemma sle_refl: "(x::go_int) \<le>s x"
  by (simp add: word_sle_eq)

lemma sless_imp_sle: "(a::go_int) <s b \<Longrightarrow> a \<le>s b"
  by (simp add: word_sle_eq word_sless_alt)

lemma sle_succ_right: "(a::go_int) \<le>s b \<Longrightarrow> b \<noteq> maxInt \<Longrightarrow> a \<le>s b + 1"
  by (simp add: word_sle_eq sint_succ)

lemma sless_succ_sle: "(a::go_int) <s b \<Longrightarrow> a + 1 \<le>s b"
proof -
  assume h: "a <s b"
  have "a \<noteq> maxInt"
  proof
    assume "a = maxInt"
    then have "sint a = 9223372036854775807" by (simp add: sint_maxInt)
    moreover have "sint b < 2 ^ 63" using sint_lt [of b] by simp
    ultimately show False using h by (simp add: word_sless_alt)
  qed
  then have "sint (a + 1) = sint a + 1" by (rule sint_succ)
  then show ?thesis using h by (simp add: word_sle_eq word_sless_alt)
qed

lemma len_snoc: "len (xs @ [x]) = len xs + 1"
  by (simp add: len_def)

section \<open>The StartView handler\<close>

text \<open>
  Claim C10. At every replica that is not Dead, and for every StartView message, the handler
  sets \<open>opLog\<close>, \<open>opNum\<close>, \<open>viewNum\<close> and \<open>primaryID\<close> from the message and \<open>status\<close> to
  Normal, and changes no other field of the replica: \<open>commitNum\<close>, \<open>clientTable\<close>,
  \<open>oldViewNum\<close>, \<open>doViewChangeCount\<close> and \<open>viewChangeResetEvent\<close> keep their values.
\<close>

theorem StartView_frame:
  assumes "status r \<noteq> Dead"
  shows "snd (StartView args reply r) =
           r\<lparr>opLog := StartViewArgs.OpLog args, opNum := StartViewArgs.OpNum args,
             viewNum := StartViewArgs.ViewNum args, primaryID := PrimaryID args,
             status := Normal\<rparr>
       \<and> commitNum (snd (StartView args reply r)) = commitNum r
       \<and> clientTable (snd (StartView args reply r)) = clientTable r
       \<and> oldViewNum (snd (StartView args reply r)) = oldViewNum r
       \<and> doViewChangeCount (snd (StartView args reply r)) = doViewChangeCount r
       \<and> viewChangeResetEvent (snd (StartView args reply r)) = viewChangeResetEvent r"
  using assms by (simp add: StartView_def)

theorem StartView_frame_witness:
  "status replica1_view1 \<noteq> Dead
   \<and> viewNum (snd (StartView startview_v1 \<lparr>StartViewReply.IsReplied = False, ReplicaID = 0\<rparr> replica1_view1)) = 1
   \<and> status (snd (StartView startview_v1 \<lparr>StartViewReply.IsReplied = False, ReplicaID = 0\<rparr> replica1_view1)) = Normal
   \<and> oldViewNum (snd (StartView startview_v1 \<lparr>StartViewReply.IsReplied = False, ReplicaID = 0\<rparr> replica1_view1)) = 0
   \<and> viewChangeResetEvent (snd (StartView startview_v1 \<lparr>StartViewReply.IsReplied = False, ReplicaID = 0\<rparr> replica1_view1)) = 3"
proof -
  have h: "status replica1_view1 \<noteq> Dead"
    by (simp add: scen StartViewChange_def word_sless_alt)
  have v: "oldViewNum replica1_view1 = 0 \<and> viewChangeResetEvent replica1_view1 = 3"
    by (simp add: scen StartViewChange_def word_sless_alt)
  from StartView_frame [OF h, of startview_v1 "\<lparr>StartViewReply.IsReplied = False, ReplicaID = 0\<rparr>"] h v
  show ?thesis by (simp add: startview_v1_def)
qed

section \<open>Submit\<close>

text \<open>
  Claim C3. \<open>Submit\<close> answers true exactly when the replica is Normal, is the primary and the
  request number is greater than the one the client table holds for the client (0 for a client
  it does not hold). When it answers true the replica differs from the one before in three
  fields only: the log has one more entry, with the request's operation, \<open>opNum\<close> is one
  higher, and the client table maps the client to the request's number and operation. When it
  answers false the replica is unchanged.
\<close>

theorem Submit_accepts_iff:
  "(fst (Submit req r) \<longleftrightarrow>
      status r = Normal \<and> ID r = primaryID r
      \<and> clientTableEntry.reqNum (lookupClient (clientTable r) (clientID req))
           <s clientRequest.reqNum req)
   \<and> (fst (Submit req r) \<longrightarrow>
        snd (Submit req r) =
          r\<lparr>opLog := opLog r @ [\<lparr>opID = len (opLog r), operation = clientRequest.reqOp req\<rparr>],
            opNum := opNum r + 1,
            clientTable := (clientTable r)(clientID req \<mapsto>
               \<lparr>clientTableEntry.reqNum = clientRequest.reqNum req,
                reqOp = clientRequest.reqOp req, resp = None\<rparr>)\<rparr>)
   \<and> (\<not> fst (Submit req r) \<longrightarrow> snd (Submit req r) = r)"
  by (auto simp add: Submit_def Let_def not_sle_iff)

theorem Submit_accepts_iff_witness:
  "fst (Submit request_x replica0)
   \<and> opNum (snd (Submit request_x replica0)) = 1
   \<and> opLog (snd (Submit request_x replica0)) = [\<lparr>opID = 0, operation = Some ''x''\<rparr>]
   \<and> \<not> fst (Submit request_x (snd (Submit request_x replica0)))
   \<and> snd (Submit request_x (snd (Submit request_x replica0))) = snd (Submit request_x replica0)
   \<and> \<not> fst (Submit request_x replica1)"
proof -
  have a: "status replica0 = Normal \<and> ID replica0 = primaryID replica0
      \<and> clientTableEntry.reqNum (lookupClient (clientTable replica0) (clientID request_x))
           <s clientRequest.reqNum request_x"
    by (simp add: scen lookupClient_def word_sless_alt)
  have b: "fst (Submit request_x replica0)"
    using a Submit_accepts_iff [of request_x replica0] by blast
  have c: "snd (Submit request_x replica0) =
          replica0\<lparr>opLog := opLog replica0 @ [\<lparr>opID = len (opLog replica0), operation = clientRequest.reqOp request_x\<rparr>],
            opNum := opNum replica0 + 1,
            clientTable := (clientTable replica0)(clientID request_x \<mapsto>
               \<lparr>clientTableEntry.reqNum = clientRequest.reqNum request_x,
                reqOp = clientRequest.reqOp request_x, resp = None\<rparr>)\<rparr>"
    using b Submit_accepts_iff [of request_x replica0] by blast
  have d: "\<not> clientTableEntry.reqNum (lookupClient (clientTable (snd (Submit request_x replica0))) (clientID request_x))
           <s clientRequest.reqNum request_x"
    by (simp add: c lookupClient_def word_sless_alt)
  have e: "\<not> fst (Submit request_x (snd (Submit request_x replica0)))"
    using d Submit_accepts_iff [of request_x "snd (Submit request_x replica0)"] by blast
  have f: "snd (Submit request_x (snd (Submit request_x replica0))) = snd (Submit request_x replica0)"
    using e Submit_accepts_iff [of request_x "snd (Submit request_x replica0)"] by blast
  have g: "ID replica1 \<noteq> primaryID replica1" by (simp add: scen)
  have h: "\<not> fst (Submit request_x replica1)"
    using g Submit_accepts_iff [of request_x replica1] by blast
  show ?thesis using b e f h by (simp add: c) (simp add: scen len_def)
qed

section \<open>The Prepare handler\<close>

text \<open>
  Claim C2, as stated for every replica state, fails at a Dead replica: the handler returns
  at once, so a Prepare of the current view with the next \<open>opNum\<close> appends nothing and is not
  answered, and one with a gap leaves the status Dead.
\<close>

theorem Prepare_dead_counterexample:
  "PrepareArgs.ViewNum prepare_op1 = viewNum (Stop replica1)
   \<and> PrepareArgs.OpNum prepare_op1 = opNum (Stop replica1) + 1
   \<and> \<not> PrepareOKReply.IsReplied (fst (Prepare 5 prepare_op1 noPrepareOK (Stop replica1)))
   \<and> opLog (snd (Prepare 5 prepare_op1 noPrepareOK (Stop replica1))) = []
   \<and> opNum (snd (Prepare 5 prepare_op1 noPrepareOK (Stop replica1))) = 0
   \<and> PrepareArgs.ViewNum prepare_op4 = viewNum (Stop replica1)
   \<and> PrepareArgs.OpNum prepare_op4 \<noteq> opNum (Stop replica1) + 1
   \<and> status (snd (Prepare 5 prepare_op4 noPrepareOK (Stop replica1))) \<noteq> Recovery"
  by (simp add: scen Stop_def Prepare_def)

text \<open>
  Claim C2, amended. At every replica that is not Dead, a Prepare of the replica's view whose
  \<open>OpNum\<close> is not \<open>opNum + 1\<close> sets the status to Recovery and changes nothing else, the reply
  included; one whose \<open>OpNum\<close> is \<open>opNum + 1\<close> refreshes \<open>viewChangeResetEvent\<close>, increments
  \<open>opNum\<close>, appends one log entry with the request's operation, updates the client table and
  answers with \<open>IsReplied\<close> true. At every replica, a Prepare of another view leaves the log as
  it is. At a Dead replica the handler changes neither the replica nor the reply, whatever the
  message.
\<close>

theorem Prepare_same_view:
  "(status r \<noteq> Dead \<and> PrepareArgs.ViewNum args = viewNum r
      \<and> PrepareArgs.OpNum args \<noteq> opNum r + 1 \<longrightarrow>
        Prepare now args reply r = (reply, r\<lparr>status := Recovery\<rparr>))
   \<and> (status r \<noteq> Dead \<and> PrepareArgs.ViewNum args = viewNum r
      \<and> PrepareArgs.OpNum args = opNum r + 1 \<longrightarrow>
        Prepare now args reply r =
          (reply\<lparr>PrepareOKReply.IsReplied := True, PrepareOKReply.ReplicaID := ID r,
                 Status := status r, PrepareOKReply.ViewNum := viewNum r,
                 PrepareOKReply.OpNum := opNum r + 1\<rparr>,
           r\<lparr>viewChangeResetEvent := now, opNum := opNum r + 1,
             opLog := opLog r @ [\<lparr>opID = len (opLog r),
                                  operation = clientRequest.reqOp (ClientMessage args)\<rparr>],
             clientTable := (clientTable r)(clientID (ClientMessage args) \<mapsto>
               \<lparr>clientTableEntry.reqNum = clientRequest.reqNum (ClientMessage args),
                reqOp = clientRequest.reqOp (ClientMessage args), resp = None\<rparr>)\<rparr>))
   \<and> (PrepareArgs.ViewNum args \<noteq> viewNum r \<longrightarrow>
        opLog (snd (Prepare now args reply r)) = opLog r)
   \<and> (status r = Dead \<longrightarrow> Prepare now args reply r = (reply, r))"
  by (auto simp add: Prepare_def Let_def pred_eq_iff)

theorem Prepare_same_view_witness:
  "status replica1 \<noteq> Dead
   \<and> PrepareArgs.ViewNum prepare_op4 = viewNum replica1
   \<and> PrepareArgs.OpNum prepare_op4 \<noteq> opNum replica1 + 1
   \<and> Prepare 5 prepare_op4 noPrepareOK replica1 = (noPrepareOK, replica1\<lparr>status := Recovery\<rparr>)
   \<and> PrepareArgs.ViewNum prepare_op1 = viewNum replica1
   \<and> PrepareArgs.OpNum prepare_op1 = opNum replica1 + 1
   \<and> PrepareOKReply.IsReplied (fst (Prepare 5 prepare_op1 noPrepareOK replica1))
   \<and> opLog (snd (Prepare 5 prepare_op1 noPrepareOK replica1)) = [\<lparr>opID = 0, operation = Some ''x''\<rparr>]
   \<and> opNum (snd (Prepare 5 prepare_op1 noPrepareOK replica1)) = 1
   \<and> PrepareArgs.ViewNum prepare_op1 \<noteq> viewNum replica1_view1
   \<and> opLog (snd (Prepare 5 prepare_op1 noPrepareOK replica1_view1)) = []
   \<and> status (Stop replica1) = Dead
   \<and> Prepare 5 prepare_op1 noPrepareOK (Stop replica1) = (noPrepareOK, Stop replica1)"
proof -
  have a: "status replica1 \<noteq> Dead \<and> PrepareArgs.ViewNum prepare_op4 = viewNum replica1
      \<and> PrepareArgs.OpNum prepare_op4 \<noteq> opNum replica1 + 1"
    by (simp add: scen)
  have b: "status replica1 \<noteq> Dead \<and> PrepareArgs.ViewNum prepare_op1 = viewNum replica1
      \<and> PrepareArgs.OpNum prepare_op1 = opNum replica1 + 1"
    by (simp add: scen)
  have c: "PrepareArgs.ViewNum prepare_op1 \<noteq> viewNum replica1_view1"
    by (simp add: scen StartViewChange_def word_sless_alt)
  have d: "opLog replica1_view1 = []"
    by (simp add: scen StartViewChange_def word_sless_alt)
  have e: "opLog replica1 = [] \<and> opNum replica1 = 0" by (simp add: scen)
  have r1: "Prepare 5 prepare_op4 noPrepareOK replica1 = (noPrepareOK, replica1\<lparr>status := Recovery\<rparr>)"
    using a Prepare_same_view [of replica1 prepare_op4 5 noPrepareOK] by blast
  have r2: "Prepare 5 prepare_op1 noPrepareOK replica1 =
          (noPrepareOK\<lparr>PrepareOKReply.IsReplied := True, PrepareOKReply.ReplicaID := ID replica1,
                 Status := status replica1, PrepareOKReply.ViewNum := viewNum replica1,
                 PrepareOKReply.OpNum := opNum replica1 + 1\<rparr>,
           replica1\<lparr>viewChangeResetEvent := 5, opNum := opNum replica1 + 1,
             opLog := opLog replica1 @ [\<lparr>opID = len (opLog replica1),
                                  operation = clientRequest.reqOp (ClientMessage prepare_op1)\<rparr>],
             clientTable := (clientTable replica1)(clientID (ClientMessage prepare_op1) \<mapsto>
               \<lparr>clientTableEntry.reqNum = clientRequest.reqNum (ClientMessage prepare_op1),
                reqOp = clientRequest.reqOp (ClientMessage prepare_op1), resp = None\<rparr>)\<rparr>)"
    using b Prepare_same_view [of replica1 prepare_op1 5 noPrepareOK] by blast
  have r3: "opLog (snd (Prepare 5 prepare_op1 noPrepareOK replica1_view1)) = opLog replica1_view1"
    using c Prepare_same_view [of replica1_view1 prepare_op1 5 noPrepareOK] by blast
  have f: "status (Stop replica1) = Dead" by (simp add: Stop_def)
  have r4: "Prepare 5 prepare_op1 noPrepareOK (Stop replica1) = (noPrepareOK, Stop replica1)"
    using f Prepare_same_view [of "Stop replica1" prepare_op1 5 noPrepareOK] by blast
  have g: "PrepareOKReply.IsReplied (fst (Prepare 5 prepare_op1 noPrepareOK replica1))
      \<and> opLog (snd (Prepare 5 prepare_op1 noPrepareOK replica1)) = [\<lparr>opID = 0, operation = Some ''x''\<rparr>]
      \<and> opNum (snd (Prepare 5 prepare_op1 noPrepareOK replica1)) = 1"
    by (simp add: r2 e len_def) (simp add: prepare_op1_def request_x_def)
  have h: "opLog (snd (Prepare 5 prepare_op1 noPrepareOK replica1_view1)) = []"
    by (simp only: r3 d)
  show ?thesis using a b c r1 g h f r4 by blast
qed

section \<open>Stale Prepare and Commit messages\<close>

text \<open>
  What Prepare does with a message of an older view: it changes neither the replica nor the
  reply, and it sets \<open>viewChangeResetEvent\<close> only at a replica that is not Dead, for a message
  of the replica's view with \<open>OpNum = opNum + 1\<close>.
\<close>

lemma Prepare_stale:
  assumes "PrepareArgs.ViewNum args <s viewNum r"
  shows "Prepare now args reply r = (reply, r)"
proof -
  have 1: "\<not> viewNum r <s PrepareArgs.ViewNum args"
    using assms by (rule sless_not_sym)
  have 2: "viewNum r \<noteq> PrepareArgs.ViewNum args"
    using sless_neq [OF assms] by (rule not_sym)
  show ?thesis using 1 2 by (simp add: Prepare_def)
qed

lemma Prepare_refresh_only:
  "viewChangeResetEvent (snd (Prepare now args reply r)) \<noteq> viewChangeResetEvent r \<Longrightarrow>
        status r \<noteq> Dead \<and> PrepareArgs.ViewNum args = viewNum r
        \<and> PrepareArgs.OpNum args = opNum r + 1"
  by (simp add: Prepare_def Let_def pred_eq_iff split: if_splits)

text \<open>
  Claim C9 against the code. Replica 1 is in view 1 (status ViewChange, \<open>viewChangeResetEvent\<close>
  set at instant 3). At instant 9 it receives from the primary of view 0 a Prepare and a Commit
  heartbeat, both of view 0. The claim has both dropped with no state change. Prepare does drop
  its message. Commit never reads \<open>args.ViewNum\<close>: it sets \<open>viewChangeResetEvent\<close> to 9, so the
  stale heartbeat counts as a sign of a live primary.
\<close>

theorem Commit_refreshes_on_stale_view:
  "viewNum replica1_view1 = 1 \<and> status replica1_view1 = ViewChange
   \<and> viewChangeResetEvent replica1_view1 = 3
   \<and> PrepareArgs.ViewNum prepare_op1 <s viewNum replica1_view1
   \<and> Prepare 9 prepare_op1 noPrepareOK replica1_view1 = (noPrepareOK, replica1_view1)
   \<and> CommitArgs.ViewNum stale_commit <s viewNum replica1_view1
   \<and> Commit 9 stale_commit noCommitReply replica1_view1
        = (noCommitReply, replica1_view1\<lparr>viewChangeResetEvent := 9\<rparr>)
   \<and> viewChangeResetEvent (snd (Commit 9 stale_commit noCommitReply replica1_view1)) = 9
   \<and> snd (Commit 9 stale_commit noCommitReply replica1_view1) \<noteq> replica1_view1"
proof -
  have a: "viewNum replica1_view1 = 1 \<and> status replica1_view1 = ViewChange
     \<and> viewChangeResetEvent replica1_view1 = 3"
    by (simp add: scen StartViewChange_def word_sless_alt)
  have p: "PrepareArgs.ViewNum prepare_op1 <s viewNum replica1_view1"
    using a by (simp add: prepare_op1_def word_sless_alt)
  have q: "Prepare 9 prepare_op1 noPrepareOK replica1_view1 = (noPrepareOK, replica1_view1)"
    using p by (rule Prepare_stale)
  have c0: "CommitArgs.ViewNum stale_commit <s viewNum replica1_view1"
    using a by (simp add: stale_commit_def word_sless_alt)
  have b0: "Commit 9 stale_commit noCommitReply replica1_view1
        = (noCommitReply, replica1_view1\<lparr>viewChangeResetEvent := 9\<rparr>)"
    using a by (simp add: Commit_def)
  have b: "viewChangeResetEvent (snd (Commit 9 stale_commit noCommitReply replica1_view1)) = 9"
    by (simp add: b0)
  have c: "snd (Commit 9 stale_commit noCommitReply replica1_view1) \<noteq> replica1_view1"
  proof
    assume "snd (Commit 9 stale_commit noCommitReply replica1_view1) = replica1_view1"
    then have "viewChangeResetEvent (snd (Commit 9 stale_commit noCommitReply replica1_view1))
        = viewChangeResetEvent replica1_view1" by (rule arg_cong)
    then show False using a b by simp
  qed
  show ?thesis using a p q c0 b0 b c by blast
qed

section \<open>The next primary\<close>

text \<open>
  Claim C8, as stated, fails: with three entries in the configuration and \<open>primaryID = 2\<close>,
  the last of the IDs 0..2, \<open>nextPrimary\<close> returns 3 and not 0.
\<close>

theorem nextPrimary_counterexample:
  "len_map config3 = 3 \<and> nextPrimary 2 config3 = 3 \<and> nextPrimary 2 config3 \<noteq> 0"
  by (simp add: nextPrimary_def len_map_def config3_def)

lemma nextPrimary_eq: "nextPrimary p config = (if p = len_map config then 0 else p + 1)"
  by (simp add: nextPrimary_def Let_def)

text \<open>
  Claim C8, amended. \<open>nextPrimary\<close> returns 0 when \<open>primaryID\<close> is the number of entries of
  the configuration, and \<open>primaryID + 1\<close> otherwise. So for a configuration of \<open>N\<close> entries
  (fewer than \<open>MaxInt64\<close>) and \<open>primaryID\<close> in \<open>0..N\<close> it returns
  \<open>(primaryID + 1) mod (N + 1)\<close>: the rotation over the \<open>N + 1\<close> IDs \<open>0..N\<close>, the same
  \<open>len(configuration) + 1\<close> that the quorum tests of the broadcasts compare with.
\<close>

theorem nextPrimary_rotation:
  "nextPrimary p config = (if p = len_map config then 0 else p + 1)
   \<and> (card (dom config) < 9223372036854775807 \<and> 0 \<le>s p \<and> p \<le>s len_map config \<longrightarrow>
        sint (nextPrimary p config) = (sint p + 1) mod (int (card (dom config)) + 1))"
proof (intro conjI impI)
  show "nextPrimary p config = (if p = len_map config then 0 else p + 1)"
    by (rule nextPrimary_eq)
  assume h: "card (dom config) < 9223372036854775807 \<and> 0 \<le>s p \<and> p \<le>s len_map config"
  let ?n = "card (dom config)"
  have "?n < 2 ^ 63" using h by simp
  then have n: "sint (len_map config) = int ?n"
    unfolding len_map_def by (rule sint_of_nat_small)
  have p0: "0 \<le> sint p" using h by (simp add: word_sle_eq)
  have pn: "sint p \<le> int ?n" using h n by (simp add: word_sle_eq)
  show "sint (nextPrimary p config) = (sint p + 1) mod (int ?n + 1)"
  proof (cases "p = len_map config")
    case True
    then show ?thesis using n by (simp add: nextPrimary_eq)
  next
    case False
    then have "sint p \<noteq> int ?n" using n by (simp add: sint_eq_iff)
    then have lt: "sint p < int ?n" using pn by simp
    have "p \<noteq> maxInt"
    proof
      assume "p = maxInt"
      then have "sint p = 9223372036854775807" by (simp add: sint_maxInt)
      then show False using lt h by simp
    qed
    then have "sint (p + 1) = sint p + 1" by (rule sint_succ)
    then show ?thesis using False p0 lt by (simp add: nextPrimary_eq)
  qed
qed

theorem nextPrimary_rotation_witness:
  "card (dom config3) < 9223372036854775807 \<and> (0::go_int) \<le>s 3 \<and> (3::go_int) \<le>s len_map config3
   \<and> nextPrimary 3 config3 = 0
   \<and> sint (nextPrimary 3 config3) = (sint (3::go_int) + 1) mod (int (card (dom config3)) + 1)
   \<and> (0::go_int) \<le>s 1 \<and> (1::go_int) \<le>s len_map config3
   \<and> nextPrimary 1 config3 = 2
   \<and> sint (nextPrimary 1 config3) = (sint (1::go_int) + 1) mod (int (card (dom config3)) + 1)"
proof -
  have c: "card (dom config3) = 3" by (simp add: config3_def)
  have l: "len_map config3 = 3" by (simp add: len_map_def c)
  have h: "card (dom config3) < 9223372036854775807 \<and> (0::go_int) \<le>s 3 \<and> (3::go_int) \<le>s len_map config3"
    by (simp add: c l word_sle_eq)
  have h1: "card (dom config3) < 9223372036854775807 \<and> (0::go_int) \<le>s 1 \<and> (1::go_int) \<le>s len_map config3"
    by (simp add: c l word_sle_eq)
  have a: "nextPrimary 3 config3 = (if 3 = len_map config3 then 0 else 3 + 1)
     \<and> sint (nextPrimary 3 config3) = (sint (3::go_int) + 1) mod (int (card (dom config3)) + 1)"
    using h nextPrimary_rotation [of 3 config3] by blast
  have b: "nextPrimary 1 config3 = (if 1 = len_map config3 then 0 else 1 + 1)
     \<and> sint (nextPrimary 1 config3) = (sint (1::go_int) + 1) mod (int (card (dom config3)) + 1)"
    using h1 nextPrimary_rotation [of 1 config3] by blast
  have a': "nextPrimary 3 config3 = 0" using a by (simp add: l)
  have b': "nextPrimary 1 config3 = 2" using b by (simp add: l)
  show ?thesis using h h1 a b a' b' by blast
qed

section \<open>Evaluation of scenario S1\<close>

lemma primary_S1_eq:
  "primary_S1 = replica0\<lparr>opLog := [\<lparr>opID = 0, operation = Some ''x''\<rparr>], opNum := 1,
      clientTable := [1 \<mapsto> \<lparr>clientTableEntry.reqNum = 1, reqOp = Some ''x'', resp = None\<rparr>]\<rparr>"
  by (simp add: primary_S1_def Submit_def scen lookupClient_def word_sle_eq len_def)

lemma blast_S1_eq:
  "blast_S1 = \<lparr>savedViewNum = 0, savedOpNum = 1, savedCommitNum = 0, newRequest = request_x,
      prepareOKsReceived = 1, commitedAlready = False\<rparr>"
  by (simp add: blast_S1_def primaryBlastPrepare_def primary_S1_eq) (simp add: scen)

lemma prepareOK_S1_eq:
  "prepareOK1_S1 = \<lparr>PrepareOKReply.IsReplied = True, ViewNum = 0, OpNum = 1, ReplicaID = 1, Status = Normal\<rparr>"
  "prepareOK2_S1 = \<lparr>PrepareOKReply.IsReplied = True, ViewNum = 0, OpNum = 1, ReplicaID = 2, Status = Normal\<rparr>"
  by (simp_all add: prepareOK1_S1_def prepareOK2_S1_def Prepare_def prepareArgsOf_def blast_S1_eq
        replica2_def scen)





lemma len_config3: "len_map (configuration primary_S1) = 3"
  by (simp add: primary_S1_eq scen len_map_def)

section \<open>Aggregation of DoViewChange messages\<close>

lemma half_config3: "go_div (len_map config3) 2 + 1 = 2"
  by (simp add: go_div_def len_map_def config3_def signed_divide_int_def)

lemma replica1_S4_eq:
  "replica1_S4 = replica1\<lparr>opLog := [log_a, log_b], opNum := 2,
      clientTable := [1 \<mapsto> \<lparr>clientTableEntry.reqNum = 2, reqOp = Some ''b'', resp = None\<rparr>],
      status := ReplicaStatus.DoViewChange, oldViewNum := 0, viewNum := 1,
      viewChangeResetEvent := 4, doViewChangeCount := 1\<rparr>"
  by (simp add: replica1_S4_def Prepare_def StartViewChange_def initiateDoViewChange_def
        sendDoViewChange_def nextPrimary_def len_map_def len_def Let_def
        startViewChange_v1_def noPrepareOK_def replica1_def NewReplica_def config3_def
        log_a_def log_b_def word_sless_alt)

lemma committed_S1_eq:
  "committed_S1 = primary_S1\<lparr>commitNum := 1,
      commitChan := [\<lparr>CommitEntry.ViewNum = 0, OpNum = 1, CommitNum = 0,
                       ClientReq = request_x, Resp = None\<rparr>]\<rparr>"
  by (simp add: committed_S1_def primaryBlastPrepare_reply_def Let_def prepareOK_S1_eq
        len_config3 word_sless_alt)
     (simp add: blast_S1_eq primary_S1_eq replica0_def NewReplica_def)

lemma committed_S1_view1_eq:
  "committed_S1_view1 = committed_S1\<lparr>status := ViewChange, oldViewNum := 0, viewNum := 1,
      viewChangeResetEvent := 7\<rparr>"
  by (simp add: committed_S1_view1_def StartViewChange_def startViewChange_v1_def
        committed_S1_eq primary_S1_eq replica0_def NewReplica_def word_sless_alt)

lemma replica1_elected_eq:
  "DoViewChange 9 doViewChange_ab_primary noDoViewChangeReply
     (snd (DoViewChange 8 doViewChange_ab_backup noDoViewChangeReply replica1_S4)) =
     (noDoViewChangeReply,
      replica1_S4\<lparr>doViewChangeCount := 3, tempCommitNum := 2, viewNum := 0, opNum := 0,
        opLog := [], commitNum := 2, primaryID := 1, status := ReplicaStatus.StartView,
        viewChangeResetEvent := 9\<rparr>)"
  by (simp add: replica1_S4_eq DoViewChange_def initiateStartView_def Let_def
        doViewChange_ab_backup_def doViewChange_ab_primary_def replica1_def NewReplica_def
        half_config3 [unfolded config3_def] config3_def len_def word_sless_alt word_sle_eq)

text \<open>
  Claim C4 against the code. Replica 1 of scenario S4 holds the log [a, b], is in view 1 and has
  counted itself. It receives two DoViewChange messages of view 1, both with \<open>OldViewNum = 0\<close>:
  first one with the log [a, b, c, d], op 4 and commit 3, then one with the log [a, b, c], op 3
  and commit 2. The second one completes the quorum. The claim has the replica adopt the log of
  the message with the larger op number, [a, b, c, d], and the larger commit number, 3. The
  handler compares each message with the live \<open>opNum\<close> and \<open>commitNum\<close> of the replica, not
  with what it has saved, so the later message overwrites the saved one: the replica ends with
  the log [a, b, c], \<open>opNum = 3\<close> and \<open>commitNum = 2\<close>, in status StartView.
\<close>

theorem DoViewChange_last_message_wins:
  "doViewChangeCount replica1_S4 = 1 \<and> status replica1_S4 = ReplicaStatus.DoViewChange
   \<and> viewNum replica1_S4 = 1 \<and> oldViewNum replica1_S4 = 0
   \<and> opLog replica1_S4 = [log_a, log_b] \<and> opNum replica1_S4 = 2
   \<and> DoViewChange 8 doViewChange_abcd noDoViewChangeReply replica1_S4 =
        (noDoViewChangeReply,
         replica1_S4\<lparr>doViewChangeCount := 2, tempViewNum := 1, tempOpNum := 4,
           tempOpLog := [log_a, log_b, log_c, log_d], tempCommitNum := 3\<rparr>)
   \<and> DoViewChange 9 doViewChange_abc noDoViewChangeReply
        (snd (DoViewChange 8 doViewChange_abcd noDoViewChangeReply replica1_S4)) =
        (noDoViewChangeReply,
         replica1_S4\<lparr>doViewChangeCount := 3, tempViewNum := 1, tempOpNum := 3,
           tempOpLog := [log_a, log_b, log_c], tempCommitNum := 2,
           viewNum := 1, opNum := 3, opLog := [log_a, log_b, log_c], commitNum := 2,
           primaryID := 1, status := ReplicaStatus.StartView, viewChangeResetEvent := 9\<rparr>)"
  by (simp add: replica1_S4_eq DoViewChange_def initiateStartView_def Let_def
        doViewChange_abcd_def doViewChange_abc_def replica1_def NewReplica_def
        half_config3 [unfolded config3_def] config3_def len_def word_sless_alt word_sle_eq)

lemma commitNum_other_steps:
  "commitNum (snd (Submit req r)) = commitNum r
   \<and> commitNum (snd (Prepare now pargs preply r)) = commitNum r
   \<and> commitNum (snd (Commit now cargs creply r)) = commitNum r
   \<and> commitNum (snd (StartView sargs sreply r)) = commitNum r
   \<and> commitNum (snd (StartViewChange now vargs vreply r)) = commitNum r
   \<and> commitNum (snd (Hello hargs hreply r)) = commitNum r
   \<and> commitNum (Stop r) = commitNum r
   \<and> commitNum (runViewChangeTimer_tick now t r) = commitNum r
   \<and> (commitNum (snd (primaryBlastPrepare_reply res (b, r))) = commitNum r
       \<or> commitNum (snd (primaryBlastPrepare_reply res (b, r))) = commitNum r + 1)"
proof -
  have "commitNum (snd (primaryBlastPrepare_reply res (b, r))) = commitNum r
       \<or> commitNum (snd (primaryBlastPrepare_reply res (b, r))) = commitNum r + 1"
    by (cases res) (simp_all add: primaryBlastPrepare_reply_def Let_def)
  then show ?thesis
    by (simp add: Submit_def Prepare_def Commit_def StartView_def StartViewChange_def Hello_def
          Stop_def runViewChangeTimer_tick_def sendDoViewChange_def initiateViewChange_def
          Let_def)
qed

text \<open>
  Claim C6 against the code. Replica 0 has committed the request of scenario S1
  (\<open>commitNum = 1\<close>) and has moved to view 1. It receives three DoViewChange messages of view 1
  from replicas that hold the request uncommitted (\<open>CommitNum = 0\<close>, \<open>OpNum = 1\<close>). None of
  them passes the tests against the live \<open>opNum\<close> and \<open>commitNum\<close>, so nothing is saved, and
  on the third the handler installs the saved values as they are, the initial zeros: \<open>commitNum\<close>
  falls from 1 to 0, the log is emptied and \<open>viewNum\<close> falls from 1 to 0.
\<close>

theorem DoViewChange_lowers_commitNum:
  "commitNum committed_S1_view1 = 1 \<and> opNum committed_S1_view1 = 1
   \<and> viewNum committed_S1_view1 = 1 \<and> status committed_S1_view1 = ViewChange
   \<and> opLog committed_S1_view1 = [\<lparr>opID = 0, operation = Some ''x''\<rparr>]
   \<and> snd (DoViewChange 10 doViewChange_x noDoViewChangeReply
        (snd (DoViewChange 9 doViewChange_x noDoViewChangeReply
          (snd (DoViewChange 8 doViewChange_x noDoViewChangeReply committed_S1_view1))))) =
        committed_S1_view1\<lparr>doViewChangeCount := 3, viewNum := 0, opNum := 0, opLog := [],
          commitNum := 0, primaryID := 0, status := ReplicaStatus.StartView,
          viewChangeResetEvent := 10\<rparr>"
  by (simp add: committed_S1_view1_eq committed_S1_eq primary_S1_eq DoViewChange_def
        initiateStartView_def Let_def doViewChange_x_def replica0_def NewReplica_def
        half_config3 [unfolded config3_def] config3_def len_def word_sless_alt word_sle_eq)

section \<open>The view number\<close>

lemma viewNum_Submit: "viewNum (snd (Submit req r)) = viewNum r"
  by (simp add: Submit_def Let_def)

lemma viewNum_reply: "viewNum (snd (primaryBlastPrepare_reply res (b, r))) = viewNum r"
  by (cases res) (simp_all add: primaryBlastPrepare_reply_def Let_def)

lemma viewNum_Prepare: "viewNum (snd (Prepare now args reply r)) = viewNum r"
  by (simp add: Prepare_def Let_def)

lemma viewNum_Commit: "viewNum (snd (Commit now args reply r)) = viewNum r"
  by (simp add: Commit_def)

lemma viewNum_Hello: "viewNum (snd (Hello args reply r)) = viewNum r"
  by (simp add: Hello_def)

lemma viewNum_StartViewChange: "viewNum r \<le>s viewNum (snd (StartViewChange now args reply r))"
  by (simp add: StartViewChange_def sle_refl sless_imp_sle)

lemma viewNum_svc_reply:
  "viewNum (snd (blastStartViewChange_reply now res (b, r))) = viewNum r"
  by (cases res) (simp_all add: blastStartViewChange_reply_def initiateDoViewChange_def Let_def)

lemma viewNum_sendDoViewChange: "viewNum (fst (sendDoViewChange r)) = viewNum r"
  by (simp add: sendDoViewChange_def Let_def)

lemma viewNum_tick:
  "viewNum r \<noteq> maxInt \<Longrightarrow> viewNum r \<le>s viewNum (runViewChangeTimer_tick now t r)"
  by (simp add: runViewChangeTimer_tick_def initiateViewChange_def viewNum_sendDoViewChange
        sle_refl sle_succ)

lemma viewNum_StartView:
  "viewNum (snd (StartView args reply r)) =
     (if status r = Dead then viewNum r else StartViewArgs.ViewNum args)"
  by (simp add: StartView_def)

lemma viewNum_DoViewChange:
  "viewNum (snd (DoViewChange now args reply r)) = viewNum r
   \<or> status (snd (DoViewChange now args reply r)) = ReplicaStatus.StartView"
  by (simp add: DoViewChange_def initiateStartView_def Let_def)

text \<open>
  Which steps keep the view number. Submit, the handler of a PrepareOK reply, Prepare, Commit,
  Hello, Stop, the handler of a StartViewChange reply, \<open>initiateDoViewChange\<close>,
  \<open>initiateStartView\<close> and \<open>sendDoViewChange\<close> leave \<open>viewNum\<close> as it is; StartViewChange keeps
  or raises it, as its comparison of the two view numbers ensures; \<open>initiateViewChange\<close> adds
  one. StartView and the quorum branch of DoViewChange assign it without a comparison.
\<close>

lemma viewNum_steps:
  "viewNum (snd (Submit req r)) = viewNum r
   \<and> viewNum (snd (primaryBlastPrepare_reply res (b, r))) = viewNum r
   \<and> viewNum (snd (Prepare now pargs preply r)) = viewNum r
   \<and> viewNum (snd (Commit now cargs creply r)) = viewNum r
   \<and> viewNum (snd (Hello hargs hreply r)) = viewNum r
   \<and> viewNum (Stop r) = viewNum r
   \<and> viewNum r \<le>s viewNum (snd (StartViewChange now vargs vreply r))
   \<and> viewNum (snd (blastStartViewChange_reply now vres (vb, r))) = viewNum r
   \<and> viewNum (initiateDoViewChange now r) = viewNum r
   \<and> viewNum (initiateStartView now r) = viewNum r
   \<and> viewNum (fst (sendDoViewChange r)) = viewNum r
   \<and> viewNum (initiateViewChange now r) = viewNum r + 1
   \<and> (viewNum r \<noteq> maxInt \<longrightarrow>
         viewNum r \<le>s viewNum (initiateViewChange now r)
         \<and> viewNum r \<le>s viewNum (runViewChangeTimer_tick now t r))
   \<and> viewNum (snd (StartView sargs sreply r)) =
        (if status r = Dead then viewNum r else StartViewArgs.ViewNum sargs)
   \<and> (viewNum (snd (DoViewChange now dargs dreply r)) = viewNum r
        \<or> status (snd (DoViewChange now dargs dreply r)) = ReplicaStatus.StartView)"
  using viewNum_tick [of r now t] viewNum_DoViewChange [of now dargs dreply r]
    viewNum_StartViewChange [of r now vargs vreply]
  by (simp add: viewNum_Submit viewNum_reply viewNum_Prepare viewNum_Commit viewNum_Hello
        viewNum_svc_reply viewNum_sendDoViewChange viewNum_StartView Stop_def
        initiateDoViewChange_def initiateStartView_def initiateViewChange_def sle_succ)

text \<open>
  Claim C5 against the code. In the ordinary view change, replica 1 of scenario S4 (view 1,
  log [a, b], one DoViewChange counted for itself) receives the DoViewChange messages of the
  two other replicas, which hold the same log. No message has an \<open>OpNum\<close> above the replica's
  own, so \<open>tempViewNum\<close> is never saved, and at the quorum the handler installs its zero: the new
  primary falls from view 1 to view 0. StartView has no comparison either: replica 1 in view 1
  that receives a StartView of view 0 is back in view 0.
\<close>

theorem viewNum_decreases:
  "viewNum replica1_S4 = 1 \<and> status replica1_S4 = ReplicaStatus.DoViewChange
   \<and> doViewChangeCount replica1_S4 = 1
   \<and> viewNum (snd (DoViewChange 9 doViewChange_ab_primary noDoViewChangeReply
        (snd (DoViewChange 8 doViewChange_ab_backup noDoViewChangeReply replica1_S4)))) = 0
   \<and> \<not> viewNum replica1_S4
         \<le>s viewNum (snd (DoViewChange 9 doViewChange_ab_primary noDoViewChangeReply
               (snd (DoViewChange 8 doViewChange_ab_backup noDoViewChangeReply replica1_S4))))
   \<and> viewNum replica1_view1 = 1 \<and> status replica1_view1 = ViewChange
   \<and> viewNum (snd (StartView startview_stale noStartViewReply replica1_view1)) = 0
   \<and> \<not> viewNum replica1_view1
         \<le>s viewNum (snd (StartView startview_stale noStartViewReply replica1_view1))"
proof -
  have a: "viewNum replica1_S4 = 1 \<and> status replica1_S4 = ReplicaStatus.DoViewChange
      \<and> doViewChangeCount replica1_S4 = 1"
    by (simp add: replica1_S4_eq)
  have b: "viewNum (snd (DoViewChange 9 doViewChange_ab_primary noDoViewChangeReply
        (snd (DoViewChange 8 doViewChange_ab_backup noDoViewChangeReply replica1_S4)))) = 0"
    by (simp add: replica1_elected_eq)
  have c: "\<not> viewNum replica1_S4
         \<le>s viewNum (snd (DoViewChange 9 doViewChange_ab_primary noDoViewChangeReply
               (snd (DoViewChange 8 doViewChange_ab_backup noDoViewChangeReply replica1_S4))))"
    by (simp only: b) (simp add: a word_sle_eq)
  have d: "viewNum replica1_view1 = 1 \<and> status replica1_view1 = ViewChange
   \<and> viewNum (snd (StartView startview_stale noStartViewReply replica1_view1)) = 0
   \<and> \<not> viewNum replica1_view1
         \<le>s viewNum (snd (StartView startview_stale noStartViewReply replica1_view1))"
    by (simp add: replica1_view1_def StartViewChange_def StartView_def startview_stale_def
          replica1_def NewReplica_def word_sless_alt word_sle_eq)
  show ?thesis using a b c d by blast
qed

section \<open>The log invariant\<close>

lemma inv_New: "logInvariant (NewReplica i cfg)"
  by (auto simp add: logInvariant_def NewReplica_def len_def sle_refl)

lemma inv_Submit:
  "logInvariant r \<Longrightarrow> opNum r \<noteq> maxInt \<Longrightarrow> logInvariant (snd (Submit req r))"
  by (auto simp add: logInvariant_def Submit_def Let_def len_snoc sle_succ_right)

lemma Prepare_log_effect:
  "commitNum (snd (Prepare now args reply r)) = commitNum r
   \<and> ((opNum (snd (Prepare now args reply r)) = opNum r
         \<and> opLog (snd (Prepare now args reply r)) = opLog r)
       \<or> (opNum (snd (Prepare now args reply r)) = opNum r + 1
         \<and> len (opLog (snd (Prepare now args reply r))) = len (opLog r) + 1))"
  by (simp add: Prepare_def Let_def len_snoc)

lemma inv_Prepare:
  assumes "logInvariant r" and "opNum r \<noteq> maxInt"
  shows "logInvariant (snd (Prepare now args reply r))"
proof -
  have a: "commitNum r \<le>s opNum r" and b: "opNum r = len (opLog r)"
    using assms(1) unfolding logInvariant_def by blast+
  have c: "commitNum r \<le>s opNum r + 1"
    using a assms(2) by (rule sle_succ_right)
  show ?thesis
    using Prepare_log_effect [of now args reply r] a b c
    unfolding logInvariant_def by auto
qed

lemma inv_Commit: "logInvariant r \<Longrightarrow> logInvariant (snd (Commit now args reply r))"
  by (auto simp add: logInvariant_def Commit_def)

lemma inv_Hello: "logInvariant r \<Longrightarrow> logInvariant (snd (Hello args reply r))"
  by (auto simp add: logInvariant_def Hello_def)

lemma inv_StartViewChange:
  "logInvariant r \<Longrightarrow> logInvariant (snd (StartViewChange now args reply r))"
  by (auto simp add: logInvariant_def StartViewChange_def)

lemma inv_svc_reply:
  "logInvariant r \<Longrightarrow> logInvariant (snd (blastStartViewChange_reply now res (b, r)))"
  by (cases res)
     (auto simp add: logInvariant_def blastStartViewChange_reply_def initiateDoViewChange_def Let_def)

lemma inv_sendDoViewChange: "logInvariant r \<Longrightarrow> logInvariant (fst (sendDoViewChange r))"
  by (auto simp add: logInvariant_def sendDoViewChange_def Let_def)

lemma inv_tick: "logInvariant r \<Longrightarrow> logInvariant (runViewChangeTimer_tick now t r)"
  by (auto simp add: runViewChangeTimer_tick_def initiateViewChange_def logInvariant_def
        sendDoViewChange_def Let_def)

lemma reply_log_effect:
  "opNum (snd (primaryBlastPrepare_reply res (b, r))) = opNum r
   \<and> opLog (snd (primaryBlastPrepare_reply res (b, r))) = opLog r
   \<and> (commitNum (snd (primaryBlastPrepare_reply res (b, r))) = commitNum r
       \<or> commitNum (snd (primaryBlastPrepare_reply res (b, r))) = commitNum r + 1)"
  by (cases res) (simp_all add: primaryBlastPrepare_reply_def Let_def)

lemma inv_reply:
  assumes "logInvariant r" and "commitNum r <s opNum r"
  shows "logInvariant (snd (primaryBlastPrepare_reply res (b, r)))"
proof -
  have a: "commitNum r \<le>s opNum r" and e: "opNum r = len (opLog r)"
    using assms(1) unfolding logInvariant_def by blast+
  have c: "commitNum r + 1 \<le>s opNum r"
    using assms(2) by (rule sless_succ_sle)
  show ?thesis
    using reply_log_effect [of res b r] a e c
    unfolding logInvariant_def by auto
qed

lemma inv_StartView:
  "status r \<noteq> Dead \<Longrightarrow>
     logInvariant (snd (StartView args reply r)) =
       (commitNum r \<le>s StartViewArgs.OpNum args
        \<and> StartViewArgs.OpNum args = len (StartViewArgs.OpLog args))"
  by (auto simp add: logInvariant_def StartView_def)

lemma inv_DoViewChange:
  "logInvariant r \<Longrightarrow>
     logInvariant (snd (DoViewChange now args reply r))
     \<or> status (snd (DoViewChange now args reply r)) = ReplicaStatus.StartView"
  by (auto simp add: logInvariant_def DoViewChange_def initiateStartView_def Let_def)

text \<open>
  Which steps keep the invariant \<open>commitNum \<le> opNum \<and> opNum = len(log)\<close>. It holds in the state
  that \<open>NewReplica\<close> makes. Submit and Prepare append to the log and add one to \<open>opNum\<close>
  together; Commit, StartViewChange, the handler of a StartViewChange reply, the timer tick,
  Hello and Stop touch none of the three fields; the handler of a PrepareOK reply adds one to
  \<open>commitNum\<close>. StartView and the quorum branch of DoViewChange install an op number and a log
  next to a commit number that they do not compare with them.
\<close>

lemma logInvariant_steps:
  "logInvariant (NewReplica i cfg)
   \<and> (logInvariant r \<and> opNum r \<noteq> maxInt \<longrightarrow>
         logInvariant (snd (Submit req r)) \<and> logInvariant (snd (Prepare now pargs preply r)))
   \<and> (logInvariant r \<longrightarrow>
         logInvariant (snd (Commit now cargs creply r))
         \<and> logInvariant (snd (StartViewChange now vargs vreply r))
         \<and> logInvariant (snd (blastStartViewChange_reply now vres (vb, r)))
         \<and> logInvariant (runViewChangeTimer_tick now t r)
         \<and> logInvariant (snd (Hello hargs hreply r))
         \<and> logInvariant (Stop r))
   \<and> (logInvariant r \<and> commitNum r <s opNum r \<longrightarrow>
         logInvariant (snd (primaryBlastPrepare_reply res (b, r))))
   \<and> (status r \<noteq> Dead \<longrightarrow>
         logInvariant (snd (StartView sargs sreply r)) =
           (commitNum r \<le>s StartViewArgs.OpNum sargs
            \<and> StartViewArgs.OpNum sargs = len (StartViewArgs.OpLog sargs)))
   \<and> (logInvariant r \<longrightarrow>
         logInvariant (snd (DoViewChange now dargs dreply r))
         \<or> status (snd (DoViewChange now dargs dreply r)) = ReplicaStatus.StartView)"
proof -
  have stop: "logInvariant r \<longrightarrow> logInvariant (Stop r)"
    by (auto simp add: logInvariant_def Stop_def)
  show ?thesis
    using stop inv_New [of i cfg] inv_Submit [of r req] inv_Prepare [of r now pargs preply]
      inv_Commit [of r now cargs creply] inv_StartViewChange [of r now vargs vreply]
      inv_svc_reply [of r now vres vb] inv_tick [of r now t] inv_Hello [of r hargs hreply]
      inv_reply [of r res b] inv_StartView [of r sargs sreply]
      inv_DoViewChange [of r now dargs dreply]
    by blast
qed

text \<open>
  Claim C7 against the code. In the ordinary view change, replica 1 of scenario S4 (log [a, b],
  \<open>opNum = 2\<close>, \<open>commitNum = 0\<close>) receives the DoViewChange messages of replica 2 and of the old
  primary, which hold the same log; the old primary has committed both operations. No message
  has an \<open>OpNum\<close> above the replica's own, so no log is saved, while the commit number 2 of the
  old primary is. At the quorum the handler installs the empty saved log and the saved commit
  number: \<open>commitNum = 2\<close> above \<open>opNum = 0\<close>. StartView breaks the invariant as well: replica 0
  after scenario S1 (\<open>commitNum = 1\<close>) that receives a StartView with an empty log keeps its
  commit number above the new \<open>opNum = 0\<close>.
\<close>

theorem logInvariant_broken:
  "logInvariant replica1_S4 \<and> commitNum replica1_S4 = 0 \<and> opNum replica1_S4 = 2
   \<and> opLog replica1_S4 = [log_a, log_b]
   \<and> commitNum (snd (DoViewChange 9 doViewChange_ab_primary noDoViewChangeReply
        (snd (DoViewChange 8 doViewChange_ab_backup noDoViewChangeReply replica1_S4)))) = 2
   \<and> opNum (snd (DoViewChange 9 doViewChange_ab_primary noDoViewChangeReply
        (snd (DoViewChange 8 doViewChange_ab_backup noDoViewChangeReply replica1_S4)))) = 0
   \<and> opLog (snd (DoViewChange 9 doViewChange_ab_primary noDoViewChangeReply
        (snd (DoViewChange 8 doViewChange_ab_backup noDoViewChangeReply replica1_S4)))) = []
   \<and> \<not> logInvariant (snd (DoViewChange 9 doViewChange_ab_primary noDoViewChangeReply
        (snd (DoViewChange 8 doViewChange_ab_backup noDoViewChangeReply replica1_S4))))
   \<and> logInvariant committed_S1 \<and> commitNum committed_S1 = 1 \<and> status committed_S1 = Normal
   \<and> commitNum (snd (StartView startview_empty noStartViewReply committed_S1)) = 1
   \<and> opNum (snd (StartView startview_empty noStartViewReply committed_S1)) = 0
   \<and> \<not> logInvariant (snd (StartView startview_empty noStartViewReply committed_S1))"
proof -
  have a: "logInvariant replica1_S4 \<and> commitNum replica1_S4 = 0 \<and> opNum replica1_S4 = 2
      \<and> opLog replica1_S4 = [log_a, log_b]"
    by (simp add: logInvariant_def replica1_S4_eq replica1_def NewReplica_def len_def word_sle_eq)
  have b: "commitNum (snd (DoViewChange 9 doViewChange_ab_primary noDoViewChangeReply
        (snd (DoViewChange 8 doViewChange_ab_backup noDoViewChangeReply replica1_S4)))) = 2
   \<and> opNum (snd (DoViewChange 9 doViewChange_ab_primary noDoViewChangeReply
        (snd (DoViewChange 8 doViewChange_ab_backup noDoViewChangeReply replica1_S4)))) = 0
   \<and> opLog (snd (DoViewChange 9 doViewChange_ab_primary noDoViewChangeReply
        (snd (DoViewChange 8 doViewChange_ab_backup noDoViewChangeReply replica1_S4)))) = []"
    by (simp add: replica1_elected_eq)
  have c: "\<not> logInvariant (snd (DoViewChange 9 doViewChange_ab_primary noDoViewChangeReply
        (snd (DoViewChange 8 doViewChange_ab_backup noDoViewChangeReply replica1_S4))))"
    unfolding logInvariant_def by (simp only: b) (simp add: word_sle_eq)
  have d: "logInvariant committed_S1 \<and> commitNum committed_S1 = 1 \<and> status committed_S1 = Normal
   \<and> commitNum (snd (StartView startview_empty noStartViewReply committed_S1)) = 1
   \<and> opNum (snd (StartView startview_empty noStartViewReply committed_S1)) = 0
   \<and> \<not> logInvariant (snd (StartView startview_empty noStartViewReply committed_S1))"
    by (simp add: logInvariant_def committed_S1_eq primary_S1_eq replica0_def NewReplica_def
          StartView_def startview_empty_def len_def word_sle_eq)
  show ?thesis using a b c d by blast
qed

section \<open>The quorum of the Prepare broadcast\<close>



























end
